theory Spec2Isabelle
  imports Complex_Main "HOL-Library.Monad_Syntax"
begin

section \<open>Errors and Python values\<close>

text \<open>
  The exceptions the module can raise, as values.  The names follow the error taxonomy of the
  design document where it has one: \<open>UnsupportedType\<close> is the \<^verbatim>\<open>ValueError("Unknown type ...")\<close>
  of \<^verbatim>\<open>_recursive_read\<close> and \<^verbatim>\<open>_recursive_write\<close>, \<open>MissingCacheArtifact\<close> the failed
  \<^verbatim>\<open>assert os.path.exists(filename)\<close>, \<open>OffsetOverflow\<close> the failed bounds assertion of
  \<^verbatim>\<open>cat\<close>, \<open>GroupNotInitialized\<close> the \<^verbatim>\<open>ValueError\<close> of \<^verbatim>\<open>get_group\<close>,
  \<open>UnknownReductionOp\<close> the \<^verbatim>\<open>AttributeError\<close> of \<^verbatim>\<open>getattr(dist.ReduceOp, ...)\<close>.
  The others are the Python and PyTorch exceptions of the same name; \<open>BackendMismatch\<close> stands
  for a collective whose participants do not issue matching calls (the backend hangs or
  fails: the module does not define what happens).
\<close>

datatype error =
    UnsupportedType
  | MissingCacheArtifact
  | OffsetOverflow
  | GroupNotInitialized
  | UnknownReductionOp
  | KeyError
  | IndexError
  | TypeError
  | UnboundLocalError
  | FileNotFoundError
  | TorchRuntimeError
  | BackendMismatch

datatype pyval = PNone | PBool bool | PInt int | PStr string

fun truthy :: "pyval \<Rightarrow> bool" where
  "truthy PNone = False"
| "truthy (PBool b) = b"
| "truthy (PInt i) = (i \<noteq> 0)"
| "truthy (PStr s) = (s \<noteq> [])"

section \<open>Process environment: rank, world size, barrier\<close>

text \<open>
  What \<^verbatim>\<open>get_rank\<close> and \<^verbatim>\<open>get_world_size\<close> read: whether \<^verbatim>\<open>torch.distributed\<close> is
  initialised, what it reports, and the environment variables \<^verbatim>\<open>RANK\<close> and
  \<^verbatim>\<open>WORLD_SIZE\<close> (already parsed by \<^verbatim>\<open>int\<close>).
\<close>

record procenv =
  dist_initialized :: bool
  dist_rank :: int
  dist_world_size :: int
  environ :: "string \<rightharpoonup> int"

definition get_rank :: "procenv \<Rightarrow> int" where
  "get_rank e =
     (if dist_initialized e then dist_rank e
      else case environ e ''RANK'' of Some r \<Rightarrow> r | None \<Rightarrow> 0)"

definition get_world_size :: "procenv \<Rightarrow> int" where
  "get_world_size e =
     (if dist_initialized e then dist_world_size e
      else case environ e ''WORLD_SIZE'' of Some n \<Rightarrow> n | None \<Rightarrow> 1)"

text \<open>
  A process's observable effects: the files it sees (path to pickled object) and the calls it
  has issued, oldest first.
\<close>

datatype event = Log string | Call | Barrier | Load string

type_synonym files = "string \<rightharpoonup> pyval"

record proc =
  fs :: files
  trace :: "event list"

definition emit :: "event \<Rightarrow> proc \<Rightarrow> proc" where
  "emit ev p = p\<lparr>trace := trace p @ [ev]\<rparr>"

text \<open>
  \<^verbatim>\<open>synchronize\<close>: a barrier when the world size is above one, nothing otherwise.  When the
  barrier returns the other processes have reached it too; \<open>peers\<close> is what they did to the
  shared file system by then.
\<close>

definition synchronize :: "procenv \<Rightarrow> (files \<Rightarrow> files) \<Rightarrow> proc \<Rightarrow> proc" where
  "synchronize e peers p =
     (if get_world_size e > 1 then (emit Barrier p)\<lparr>fs := peers (fs p)\<rparr> else p)"

section \<open>Coordinator gating\<close>

text \<open>
  Modelled from the spec: \<^verbatim>\<open>pickle_load\<close> lives in \<^verbatim>\<open>utils.basics\<close>, which is not part of
  the sources at hand; it loads and returns the persisted artifact.
\<close>

definition pickle_load :: "string \<Rightarrow> proc \<Rightarrow> (error + pyval) \<times> proc" where
  "pickle_load filename p =
     (case fs p filename of
        None \<Rightarrow> (Inl FileNotFoundError, p)
      | Some v \<Rightarrow> (Inr v, emit (Load filename) p))"

text \<open>
  \<^verbatim>\<open>args[cache_arg]\<close>: a tuple index, where \<open>-1\<close> is the last positional argument and an
  index outside \<open>-len .. len-1\<close> raises.
\<close>

definition py_index :: "'a list \<Rightarrow> int \<Rightarrow> error + 'a" where
  "py_index xs i =
     (if 0 \<le> i \<and> i < int (length xs) then Inr (xs ! nat i)
      else if - int (length xs) \<le> i \<and> i < 0 then Inr (xs ! nat (int (length xs) + i))
      else Inl IndexError)"

text \<open>
  \<^verbatim>\<open>os.path.exists\<close> is applied to the selected argument; only string paths are modelled,
  anything else is a \<open>TypeError\<close>.
\<close>

fun as_path :: "pyval \<Rightarrow> error + string" where
  "as_path (PStr s) = Inr s"
| "as_path _ = Inl TypeError"

text \<open>
  The first lines of the wrapper: which argument names the cache file.  \<open>None\<close> is the
  case in which the name \<^verbatim>\<open>filename\<close> is never bound (only a message is logged).
\<close>

definition resolve_filename ::
  "int option \<Rightarrow> string option \<Rightarrow> pyval list \<Rightarrow> (string \<rightharpoonup> pyval) \<Rightarrow> error + pyval option"
where
  "resolve_filename cache_arg cache_kwarg args kwargs =
     (case cache_kwarg of
        Some ck \<Rightarrow> (case kwargs ck of None \<Rightarrow> Inl KeyError | Some v \<Rightarrow> Inr (Some v))
      | None \<Rightarrow>
          (case cache_arg of
             Some i \<Rightarrow> (case py_index args i of Inl e \<Rightarrow> Inl e | Inr v \<Rightarrow> Inr (Some v))
           | None \<Rightarrow> Inr None))"

text \<open>
  The wrapped function: from its arguments and the files it sees to its result and the files
  it leaves.
\<close>

type_synonym pyfunc = "pyval list \<Rightarrow> (string \<rightharpoonup> pyval) \<Rightarrow> files \<Rightarrow> pyval \<times> files"

definition call_func :: "pyfunc \<Rightarrow> pyval list \<Rightarrow> (string \<rightharpoonup> pyval) \<Rightarrow> proc \<Rightarrow> pyval \<times> proc" where
  "call_func func args kwargs p =
     (let (r, fs') = func args kwargs (fs p) in (r, (emit Call p)\<lparr>fs := fs'\<rparr>))"

definition process_on_master_and_sync_by_pickle ::
  "int option \<Rightarrow> string option \<Rightarrow> procenv \<Rightarrow> (files \<Rightarrow> files) \<Rightarrow> string \<Rightarrow> pyfunc \<Rightarrow>
   pyval list \<Rightarrow> (string \<rightharpoonup> pyval) \<Rightarrow> proc \<Rightarrow> (error + pyval) \<times> proc"
where
  "process_on_master_and_sync_by_pickle cache_arg cache_kwarg e peers func_name func args kwargs p =
     (case resolve_filename cache_arg cache_kwarg args kwargs of
        Inl err \<Rightarrow> (Inl err, p)
      | Inr fopt \<Rightarrow>
          let p1 = (if fopt = None then emit (Log ''No cache file specified'') p else p);
              skip_cache = (case kwargs ''skip_cache'' of None \<Rightarrow> PBool False | Some v \<Rightarrow> v);
              kwargs' = kwargs(''skip_cache'' := None)
          in (case fopt of
                None \<Rightarrow> (Inl UnboundLocalError, p1)
              | Some fv \<Rightarrow>
                  (case as_path fv of
                     Inl err \<Rightarrow> (Inl err, p1)
                   | Inr filename \<Rightarrow>
                       if fs p1 filename = None \<or> truthy skip_cache then
                         let p2 = (if get_rank e = 0 then snd (call_func func args kwargs' p1) else p1);
                             p3 = synchronize e peers p2
                         in if fs p3 filename = None then (Inl MissingCacheArtifact, p3)
                            else pickle_load filename p3
                       else
                         let p2 = (if get_rank e = 0
                                   then emit (Log (''Loaded cache '' @ filename @ '', skipped '' @ func_name)) p1
                                   else p1)
                         in pickle_load filename p2)))"

text \<open>
  \<^verbatim>\<open>master_process_only\<close>: the wrapper returns the function's result on rank 0 and falls off
  its end (returning \<^verbatim>\<open>None\<close>) after \<^verbatim>\<open>synchronize\<close> elsewhere.
\<close>

definition master_process_only ::
  "procenv \<Rightarrow> (files \<Rightarrow> files) \<Rightarrow> pyfunc \<Rightarrow> pyval list \<Rightarrow> (string \<rightharpoonup> pyval) \<Rightarrow> proc \<Rightarrow> pyval \<times> proc"
where
  "master_process_only e peers func args kwargs p =
     (if get_rank e = 0 then call_func func args kwargs p
      else (PNone, synchronize e peers p))"

text \<open>The collective calls among the events of a trace.\<close>

definition collectives :: "event list \<Rightarrow> event list" where
  "collectives evs = filter (\<lambda>ev. ev = Barrier) evs"

section \<open>Tensors\<close>

text \<open>
  A tensor as the module sees it: element type, shape, device class and the elements in
  row-major order.  Elements are rationals: floating-point values are idealised as exact
  numbers (rounding is not modelled), integers and booleans (0 and 1) are the rationals of
  that value.
\<close>

datatype dtype = Float32 | Int64 | UInt8 | Bool

datatype device = CPU | CUDA

record tensor =
  dtype :: dtype
  shape :: "nat list"
  device :: device
  data :: "rat list"

definition numel :: "tensor \<Rightarrow> nat" where
  "numel t = prod_list (shape t)"

definition flatten :: "tensor \<Rightarrow> tensor" where
  "flatten t = t\<lparr>shape := [numel t]\<rparr>"

text \<open>\<^verbatim>\<open>th.tensor([obj.numel()], device=obj.device)\<close>: a one-element integer tensor.\<close>

definition size_tensor :: "tensor \<Rightarrow> tensor" where
  "size_tensor t = \<lparr>dtype = Int64, shape = [1], device = device t, data = [of_nat (numel t)]\<rparr>"

text \<open>
  Conversion of one element to a dtype (\<^verbatim>\<open>Tensor.type\<close>, \<^verbatim>\<open>Tensor.byte\<close>): integers
  truncate toward zero and wrap around, booleans are "non-zero".
\<close>

definition trunc :: "rat \<Rightarrow> int" where
  "trunc x = (if 0 \<le> x then \<lfloor>x\<rfloor> else \<lceil>x\<rceil>)"

fun cast :: "dtype \<Rightarrow> rat \<Rightarrow> rat" where
  "cast Float32 x = x"
| "cast Int64 x = of_int ((trunc x + 2 ^ 63) mod 2 ^ 64 - 2 ^ 63)"
| "cast UInt8 x = of_int (trunc x mod 256)"
| "cast Bool x = (if x = 0 then 0 else 1)"

definition th_type :: "dtype \<Rightarrow> tensor \<Rightarrow> tensor" where
  "th_type k t = t\<lparr>dtype := k, data := map (cast k) (data t)\<rparr>"

text \<open>\<^verbatim>\<open>v / n\<close>: true division, whose result is a floating-point tensor.\<close>

definition th_div :: "tensor \<Rightarrow> nat \<Rightarrow> tensor" where
  "th_div t n = t\<lparr>dtype := Float32, data := map (\<lambda>x. x / of_nat n) (data t)\<rparr>"

text \<open>
  \<^verbatim>\<open>th.cat\<close> of one-dimensional tensors.  An empty list and tensors on different devices
  are errors of PyTorch.  The lists of \<^verbatim>\<open>_recursive_read\<close> hold tensors of one dtype, that
  of the first.
\<close>

definition th_cat :: "tensor list \<Rightarrow> error + tensor" where
  "th_cat ts =
     (case ts of
        [] \<Rightarrow> Inl TorchRuntimeError
      | t # _ \<Rightarrow>
          if list_all (\<lambda>u. device u = device t) ts
          then Inr \<lparr>dtype = dtype t, shape = [sum_list (map numel ts)], device = device t,
                    data = concat (map data ts)\<rparr>
          else Inl TorchRuntimeError)"

text \<open>The rows of a buffer along its last axis: \<open>r\<close> rows of \<open>m\<close> elements.\<close>

definition rows_of :: "nat \<Rightarrow> nat \<Rightarrow> 'a list \<Rightarrow> 'a list list" where
  "rows_of r m xs = map (\<lambda>i. take m (drop (i * m) xs)) [0..<r]"

text \<open>
  \<^verbatim>\<open>v.split([n, v.shape[-1] - n], dim=-1)\<close>: the first \<open>n\<close> entries of every row, and the
  rest.  A tensor without axes has no \<^verbatim>\<open>shape[-1]\<close>; a negative second length is an error.
\<close>

definition split_last :: "nat \<Rightarrow> tensor \<Rightarrow> error + tensor \<times> tensor" where
  "split_last n v =
     (if shape v = [] then Inl IndexError
      else if last (shape v) < n then Inl TorchRuntimeError
      else let lead = butlast (shape v);
               rows = rows_of (prod_list lead) (last (shape v)) (data v)
           in Inr (v\<lparr>shape := lead @ [n], data := concat (map (take n) rows)\<rparr>,
                   v\<lparr>shape := lead @ [last (shape v) - n], data := concat (map (drop n) rows)\<rparr>))"

text \<open>
  \<^verbatim>\<open>new_obj.view(new_obj.shape[:-1] + (-1,) + obj.shape[1:])\<close>: the axis written \<open>-1\<close> is
  inferred from the number of elements; PyTorch refuses when the other axes multiply to
  zero or do not divide it.
\<close>

definition view_leaf :: "tensor \<Rightarrow> tensor \<Rightarrow> error + tensor" where
  "view_leaf obj new_obj =
     (let pre = butlast (shape new_obj); post = tl (shape obj);
          known = prod_list pre * prod_list post
      in if known = 0 \<or> numel new_obj mod known \<noteq> 0 then Inl TorchRuntimeError
         else Inr (new_obj\<lparr>shape := pre @ [numel new_obj div known] @ post\<rparr>))"

section \<open>Nested containers\<close>

text \<open>
  What a caller can pass: a tensor, a dict, a list, a tuple, or anything else.  Dict keys are
  strings, or dtypes (the size tables of \<^verbatim>\<open>cat\<close>).  A dict is the list of its items in
  insertion order.
\<close>

datatype key = StrKey string | DtypeKey dtype

datatype obj =
    Tensor tensor
  | Dict "(key \<times> obj) list"
  | ListObj "obj list"
  | TupleObj "obj list"
  | Other pyval

text \<open>\<^verbatim>\<open>d[k] = v\<close> on a dict: replaces in place, or appends a new item.\<close>

fun dict_set :: "(key \<times> 'v) list \<Rightarrow> key \<Rightarrow> 'v \<Rightarrow> (key \<times> 'v) list" where
  "dict_set [] k v = [(k, v)]"
| "dict_set ((k', v') # d) k v = (if k' = k then (k', v) # d else (k', v') # dict_set d k v)"

text \<open>
  \<^verbatim>\<open>defaultdict(list)\<close> keyed by dtype, in insertion order; \<open>dd_extend\<close> is
  \<^verbatim>\<open>d[k] += v\<close>, \<open>dd_merge\<close> the loop \<^verbatim>\<open>for k, v in child.items(): d[k] += v\<close>.
\<close>

type_synonym 'a ddict = "(dtype \<times> 'a list) list"

fun dd_extend :: "'a ddict \<Rightarrow> dtype \<Rightarrow> 'a list \<Rightarrow> 'a ddict" where
  "dd_extend [] k v = [(k, v)]"
| "dd_extend ((k', old) # d) k v =
     (if k' = k then (k', old @ v) # d else (k', old) # dd_extend d k v)"

definition dd_merge :: "'a ddict \<Rightarrow> 'a ddict \<Rightarrow> 'a ddict" where
  "dd_merge d child = fold (\<lambda>(k, v) acc. dd_extend acc k v) child d"

subsection \<open>Flatten: \<^verbatim>\<open>_recursive_read\<close>\<close>

type_synonym readout = "tensor ddict \<times> tensor ddict"

fun recursive_read :: "obj \<Rightarrow> error + readout"
  and read_items :: "(key \<times> obj) list \<Rightarrow> readout \<Rightarrow> error + readout"
  and read_seq :: "obj list \<Rightarrow> readout \<Rightarrow> error + readout"
where
  "recursive_read (Tensor t) = Inr ([(dtype t, [flatten t])], [(dtype t, [size_tensor t])])"
| "recursive_read (Dict items) = read_items items ([], [])"
| "recursive_read (ListObj xs) = read_seq xs ([], [])"
| "recursive_read (TupleObj xs) = read_seq xs ([], [])"
| "recursive_read (Other v) = Inl UnsupportedType"
| "read_items [] acc = Inr acc"
| "read_items ((k, x) # rest) acc =
     (case recursive_read x of
        Inl e \<Rightarrow> Inl e
      | Inr (child_values, child_sizes) \<Rightarrow>
          read_items rest (dd_merge (fst acc) child_values, dd_merge (snd acc) child_sizes))"
| "read_seq [] acc = Inr acc"
| "read_seq (x # rest) acc =
     (case recursive_read x of
        Inl e \<Rightarrow> Inl e
      | Inr (child_values, child_sizes) \<Rightarrow>
          read_seq rest (dd_merge (fst acc) child_values, dd_merge (snd acc) child_sizes))"

text \<open>\<^verbatim>\<open>{k: th.cat(v) for k, v in values.items()}\<close>\<close>

fun cat_all :: "tensor ddict \<Rightarrow> error + (dtype \<times> tensor) list" where
  "cat_all [] = Inr []"
| "cat_all ((k, v) # rest) =
     (case th_cat v of
        Inl e \<Rightarrow> Inl e
      | Inr t \<Rightarrow> (case cat_all rest of Inl e \<Rightarrow> Inl e | Inr r \<Rightarrow> Inr ((k, t) # r)))"

subsection \<open>Rebuild: \<^verbatim>\<open>_recursive_write\<close>\<close>

text \<open>
  The state threaded through the rebuild: the per-dtype buffers still to be consumed
  (returned by the source) and the size table (a dict the source mutates in place), when
  one was given.
\<close>

type_synonym buffers = "dtype \<rightharpoonup> tensor"

type_synonym wstate = "buffers \<times> buffers option"

text \<open>
  How many elements the next leaf takes: its own element count, or the next entry of the
  size table of its dtype (\<^verbatim>\<open>s.split([1, len(s) - 1])\<close>; the tables of this module have
  one axis).
\<close>

definition pop_size :: "tensor \<Rightarrow> buffers option \<Rightarrow> error + nat \<times> buffers option" where
  "pop_size obj sizes =
     (case sizes of
        None \<Rightarrow> Inr (numel obj, None)
      | Some sz \<Rightarrow>
          (case sz (dtype obj) of
             None \<Rightarrow> Inl KeyError
           | Some s \<Rightarrow>
               if length (shape s) \<noteq> 1 then Inl TorchRuntimeError
               else (case split_last 1 s of
                       Inl e \<Rightarrow> Inl TorchRuntimeError
                     | Inr (first, s') \<Rightarrow>
                         (case data first of
                            [] \<Rightarrow> Inl TorchRuntimeError
                          | x # _ \<Rightarrow> Inr (nat \<lfloor>x\<rfloor>, Some (sz(dtype obj \<mapsto> s')))))))"

definition write_leaf :: "tensor \<Rightarrow> wstate \<Rightarrow> error + tensor \<times> wstate" where
  "write_leaf obj st =
     (case pop_size obj (snd st) of
        Inl e \<Rightarrow> Inl e
      | Inr (cnt, sizes') \<Rightarrow>
          (case fst st (dtype obj) of
             None \<Rightarrow> Inl KeyError
           | Some v \<Rightarrow>
               (case split_last cnt v of
                  Inl e \<Rightarrow> Inl e
                | Inr (new_obj, v') \<Rightarrow>
                    (case view_leaf obj new_obj of
                       Inl e \<Rightarrow> Inl e
                     | Inr new_obj' \<Rightarrow> Inr (new_obj', ((fst st)(dtype obj \<mapsto> v'), sizes'))))))"

fun recursive_write :: "obj \<Rightarrow> wstate \<Rightarrow> error + obj \<times> wstate"
  and write_items :: "(key \<times> obj) list \<Rightarrow> (key \<times> obj) list \<Rightarrow> wstate
                       \<Rightarrow> error + (key \<times> obj) list \<times> wstate"
  and write_seq :: "obj list \<Rightarrow> obj list \<Rightarrow> wstate \<Rightarrow> error + obj list \<times> wstate"
where
  "recursive_write (Tensor t) st =
     (case write_leaf t st of Inl e \<Rightarrow> Inl e | Inr (t', st') \<Rightarrow> Inr (Tensor t', st'))"
| "recursive_write (Dict items) st =
     (case write_items items [] st of Inl e \<Rightarrow> Inl e | Inr (d, st') \<Rightarrow> Inr (Dict d, st'))"
| "recursive_write (ListObj xs) st =
     (case write_seq xs [] st of Inl e \<Rightarrow> Inl e | Inr (ys, st') \<Rightarrow> Inr (ListObj ys, st'))"
| "recursive_write (TupleObj xs) st =
     (case write_seq xs [] st of Inl e \<Rightarrow> Inl e | Inr (ys, st') \<Rightarrow> Inr (ListObj ys, st'))"
| "recursive_write (Other v) st = Inl UnsupportedType"
| "write_items [] new_obj st = Inr (new_obj, st)"
| "write_items ((k, v) # rest) new_obj st =
     (case recursive_write v st of
        Inl e \<Rightarrow> Inl e
      | Inr (v', st') \<Rightarrow> write_items rest (dict_set new_obj k v') st')"
| "write_seq [] new_obj st = Inr (new_obj, st)"
| "write_seq (v # rest) new_obj st =
     (case recursive_write v st of
        Inl e \<Rightarrow> Inl e
      | Inr (v', st') \<Rightarrow> write_seq rest (new_obj @ [v']) st')"

section \<open>Collective communication\<close>

text \<open>
  The module-level process groups (\<open>None\<close> until \<^verbatim>\<open>init_process_group\<close> has run), and
  what a directed \<^verbatim>\<open>dist.reduce\<close> leaves in the buffer of a rank that is not the
  destination: the backend does not define it, so it is a parameter.
\<close>

record comm =
  cpu_group :: "nat option"
  gpu_group :: "nat option"
  residue :: "nat \<Rightarrow> rat list list \<Rightarrow> rat list"

definition get_group :: "comm \<Rightarrow> device \<Rightarrow> error + nat" where
  "get_group c d =
     (case (if d = CPU then cpu_group c else gpu_group c) of
        None \<Rightarrow> Inl GroupNotInitialized
      | Some g \<Rightarrow> Inr g)"

text \<open>
  \<^verbatim>\<open>getattr(dist.ReduceOp, op.upper())\<close> for the operators the docstring of \<^verbatim>\<open>reduce\<close>
  lists (the bitwise members of \<^verbatim>\<open>ReduceOp\<close> are left out).
\<close>

datatype rop = OpSum | OpProduct | OpMin | OpMax

definition upper_char :: "char \<Rightarrow> char" where
  "upper_char ch =
     (let n = (of_char ch :: nat) in if 97 \<le> n \<and> n \<le> 122 then char_of (n - 32) else ch)"

definition reduce_op :: "string \<Rightarrow> error + rop" where
  "reduce_op name =
     (let u = map upper_char name
      in if u = ''SUM'' then Inr OpSum
         else if u = ''PRODUCT'' then Inr OpProduct
         else if u = ''MIN'' then Inr OpMin
         else if u = ''MAX'' then Inr OpMax
         else Inl UnknownReductionOp)"

fun apply_op :: "rop \<Rightarrow> rat \<Rightarrow> rat \<Rightarrow> rat" where
  "apply_op OpSum x y = x + y"
| "apply_op OpProduct x y = x * y"
| "apply_op OpMin x y = min x y"
| "apply_op OpMax x y = max x y"

text \<open>The element-wise reduction of the participants' buffers, in the buffers' dtype.\<close>

definition reduce_data :: "rop \<Rightarrow> dtype \<Rightarrow> rat list list \<Rightarrow> rat list" where
  "reduce_data op k ds =
     (case ds of
        [] \<Rightarrow> []
      | d # rest \<Rightarrow> map (cast k) (foldl (\<lambda>acc x. map2 (apply_op op) acc x) d rest))"

text \<open>
  One collective call of the job: for every rank the group and buffer it passes, or \<open>None\<close>
  when that rank never gets to the call.  The call is well defined when every rank takes
  part with the same group, dtype and shape.
\<close>

type_synonym call = "nat \<times> tensor"

definition matching :: "call option list \<Rightarrow> bool" where
  "matching calls =
     (case calls of
        Some (g, t) # _ \<Rightarrow>
          list_all (\<lambda>c. case c of
                           None \<Rightarrow> False
                         | Some (g', u) \<Rightarrow> g' = g \<and> dtype u = dtype t \<and> shape u = shape t) calls
      | _ \<Rightarrow> False)"

text \<open>
  \<^verbatim>\<open>dist.all_reduce\<close> (\<open>dst = None\<close>) and \<^verbatim>\<open>dist.reduce\<close>, as seen by \<open>rank\<close>, whose
  buffer \<open>v\<close> is overwritten in place.
\<close>

definition run_collective ::
  "comm \<Rightarrow> rop \<Rightarrow> nat option \<Rightarrow> nat \<Rightarrow> call option list \<Rightarrow> tensor \<Rightarrow> error + tensor"
where
  "run_collective c op dst rank calls v =
     (if \<not> matching calls then Inl BackendMismatch
      else let ds = map (\<lambda>x. data (snd (the x))) calls
           in if dst = None \<or> dst = Some rank
              then Inr (v\<lparr>data := reduce_data op (dtype v) ds\<rparr>)
              else Inr (v\<lparr>data := residue c rank ds\<rparr>))"

text \<open>
  What one worker does before and between its collective calls: it fails at once (its
  container cannot be flattened), or it goes through a list of steps, one per dtype in the
  order of the dict, each of which fails locally or hands a buffer to a collective.
\<close>

type_synonym step = "error + dtype \<times> tensor"

type_synonym plan = "error + step list"

definition ready :: "comm \<Rightarrow> step \<Rightarrow> bool" where
  "ready c s = (case s of Inl e \<Rightarrow> False | Inr (k, v) \<Rightarrow> get_group c (device v) \<noteq> Inl GroupNotInitialized)"

definition call_at :: "comm \<Rightarrow> plan \<Rightarrow> nat \<Rightarrow> call option" where
  "call_at c p j =
     (case p of
        Inl e \<Rightarrow> None
      | Inr steps \<Rightarrow>
          if j < length steps \<and> list_all (ready c) (take (Suc j) steps)
          then (case steps ! j of
                  Inl e \<Rightarrow> None
                | Inr (k, v) \<Rightarrow> (case get_group c (device v) of Inl e \<Rightarrow> None | Inr g \<Rightarrow> Some (g, v)))
          else None)"

definition call_table :: "comm \<Rightarrow> plan list \<Rightarrow> nat \<Rightarrow> call option list" where
  "call_table c plans j = map (\<lambda>p. call_at c p j) plans"

text \<open>
  The loop \<^verbatim>\<open>for k, v in values.items()\<close> of \<^verbatim>\<open>reduce\<close>, \<^verbatim>\<open>stack\<close> and \<^verbatim>\<open>cat\<close>:
  look up the group, run the collective, store the converted result under \<open>k\<close>.
\<close>

fun coll_loop ::
  "comm \<Rightarrow> rop \<Rightarrow> nat option \<Rightarrow> nat \<Rightarrow> (nat \<Rightarrow> call option list) \<Rightarrow> (dtype \<Rightarrow> tensor \<Rightarrow> tensor)
   \<Rightarrow> nat \<Rightarrow> step list \<Rightarrow> buffers \<Rightarrow> error + buffers"
where
  "coll_loop c op dst rank table post j [] out = Inr out"
| "coll_loop c op dst rank table post j (s # rest) out =
     (case s of
        Inl e \<Rightarrow> Inl e
      | Inr (k, v) \<Rightarrow>
          (case get_group c (device v) of
             Inl e \<Rightarrow> Inl e
           | Inr g \<Rightarrow>
               (case run_collective c op dst rank (table j) v of
                  Inl e \<Rightarrow> Inl e
                | Inr v' \<Rightarrow> coll_loop c op dst rank table post (Suc j) rest (out(k \<mapsto> post k v')))))"

section \<open>\<^verbatim>\<open>reduce\<close>\<close>

text \<open>
  A job is the list \<open>objs\<close> of the containers its workers pass, worker \<open>r\<close> being the one
  whose \<^verbatim>\<open>get_rank()\<close> is \<open>r\<close>; \<^verbatim>\<open>get_world_size()\<close> is \<open>length objs\<close>.  All workers pass the
  same \<open>op\<close> and \<open>dst\<close>.  The function gives what the call returns on worker \<open>rank\<close>.
\<close>

definition promote :: "tensor \<Rightarrow> tensor" where
  "promote v = (if dtype v = Bool then th_type UInt8 v else v)"

definition reduce_plan :: "string \<Rightarrow> obj \<Rightarrow> plan" where
  "reduce_plan op obj =
     (case recursive_read obj of
        Inl e \<Rightarrow> Inl e
      | Inr (values, sizes) \<Rightarrow>
          (case cat_all values of
             Inl e \<Rightarrow> Inl e
           | Inr bufs \<Rightarrow>
               (case reduce_op (if op = ''mean'' then ''sum'' else op) of
                  Inl e \<Rightarrow> Inl e
                | Inr r \<Rightarrow> Inr (map (\<lambda>(k, v). Inr (k, promote v)) bufs))))"

definition reduce_on :: "comm \<Rightarrow> string \<Rightarrow> nat option \<Rightarrow> obj list \<Rightarrow> nat \<Rightarrow> error + obj" where
  "reduce_on c op dst objs rank =
     (case reduce_plan op (objs ! rank) of
        Inl e \<Rightarrow> Inl e
      | Inr steps \<Rightarrow>
          (case reduce_op (if op = ''mean'' then ''sum'' else op) of
             Inl e \<Rightarrow> Inl e
           | Inr r \<Rightarrow>
               (case coll_loop c r dst rank (call_table c (map (reduce_plan op) objs))
                       (\<lambda>k v. th_type k (if op = ''mean'' then th_div v (length objs) else v))
                       0 steps Map.empty of
                  Inl e \<Rightarrow> Inl e
                | Inr reduced \<Rightarrow>
                    (case recursive_write (objs ! rank) (reduced, None) of
                       Inl e \<Rightarrow> Inl e
                     | Inr (new_obj, st) \<Rightarrow> Inr new_obj))))"

section \<open>\<^verbatim>\<open>stack\<close>\<close>

text \<open>
  \<^verbatim>\<open>s = th.zeros(world_size, *v.shape, dtype=dtype); s[rank] = v\<close>, booleans as bytes.
\<close>

definition one_hot :: "nat \<Rightarrow> nat \<Rightarrow> tensor \<Rightarrow> error + tensor" where
  "one_hot ws rank v =
     (if ws \<le> rank then Inl IndexError
      else let k = (if dtype v = Bool then UInt8 else dtype v)
           in Inr \<lparr>dtype = k, shape = ws # shape v, device = device v,
                   data = concat (map (\<lambda>p. if p = rank then map (cast k) (data v)
                                             else replicate (numel v) 0) [0..<ws])\<rparr>)"

definition stack_plan :: "nat \<Rightarrow> nat \<Rightarrow> obj \<Rightarrow> plan" where
  "stack_plan ws rank obj =
     (case recursive_read obj of
        Inl e \<Rightarrow> Inl e
      | Inr (values, sizes) \<Rightarrow>
          (case cat_all values of
             Inl e \<Rightarrow> Inl e
           | Inr bufs \<Rightarrow>
               Inr (map (\<lambda>(k, v). case one_hot ws rank v of Inl e \<Rightarrow> Inl e | Inr s \<Rightarrow> Inr (k, s)) bufs)))"

definition stack_local ::
  "comm \<Rightarrow> nat option \<Rightarrow> nat \<Rightarrow> (nat \<Rightarrow> call option list) \<Rightarrow> plan \<Rightarrow> obj \<Rightarrow> error + obj"
where
  "stack_local c dst rank table p obj =
     (case p of
        Inl e \<Rightarrow> Inl e
      | Inr steps \<Rightarrow>
          (case coll_loop c OpSum dst rank table th_type 0 steps Map.empty of
             Inl e \<Rightarrow> Inl e
           | Inr stacked \<Rightarrow>
               (case recursive_write obj (stacked, None) of
                  Inl e \<Rightarrow> Inl e
                | Inr (new_obj, st) \<Rightarrow> Inr new_obj)))"

definition stack_on :: "comm \<Rightarrow> nat option \<Rightarrow> obj list \<Rightarrow> nat \<Rightarrow> error + obj" where
  "stack_on c dst objs rank =
     (let ws = length objs;
          plans = map (\<lambda>p. stack_plan ws p (objs ! p)) [0..<ws]
      in stack_local c dst rank (call_table c plans) (stack_plan ws rank (objs ! rank)) (objs ! rank))"

section \<open>\<^verbatim>\<open>cat\<close>\<close>

text \<open>\<^verbatim>\<open>sizes = {k: th.cat(v) for k, v in sizes.items()}\<close>, the container handed to \<^verbatim>\<open>stack\<close>.\<close>

definition sizes_obj :: "obj \<Rightarrow> error + obj" where
  "sizes_obj obj =
     (case recursive_read obj of
        Inl e \<Rightarrow> Inl e
      | Inr (values, sizes) \<Rightarrow>
          (case cat_all sizes of
             Inl e \<Rightarrow> Inl e
           | Inr tbl \<Rightarrow> Inr (Dict (map (\<lambda>(k, t). (DtypeKey k, Tensor t)) tbl))))"

text \<open>\<^verbatim>\<open>sizes[k]\<close> on the dict that \<^verbatim>\<open>stack\<close> returned.\<close>

definition sizes_lookup :: "obj \<Rightarrow> dtype \<Rightarrow> error + tensor" where
  "sizes_lookup s k =
     (case s of
        Dict items \<Rightarrow>
          (case map_of items (DtypeKey k) of
             None \<Rightarrow> Inl KeyError
           | Some (Tensor t) \<Rightarrow> Inr t
           | Some other \<Rightarrow> Inl TypeError)
      | other \<Rightarrow> Inl TypeError)"

text \<open>
  \<^verbatim>\<open>sizes[k].t().flatten()\<close> of a \<open>(num_worker, num_obj)\<close> table: entry \<open>j * num_worker + p\<close>
  is the count of worker \<open>p\<close> at leaf \<open>j\<close>.
\<close>

definition t_flatten :: "tensor \<Rightarrow> error + nat list" where
  "t_flatten t =
     (case shape t of
        [r, n] \<Rightarrow> Inr (concat (map (\<lambda>j. map (\<lambda>p. nat \<lfloor>data t ! (p * n + j)\<rfloor>) [0..<r]) [0..<n]))
      | [n] \<Rightarrow> Inr (map (\<lambda>x. nat \<lfloor>x\<rfloor>) (data t))
      | [] \<Rightarrow> Inr (map (\<lambda>x. nat \<lfloor>x\<rfloor>) (data t))
      | _ \<Rightarrow> Inl TorchRuntimeError)"

text \<open>
  The inner loop of \<^verbatim>\<open>cat\<close>: every local leaf \<open>v\<close> of the dtype is written at \<open>offset\<close>,
  after the bounds assertion; the offset then moves on by \<^verbatim>\<open>size[obj_id: obj_id + world_size].sum()\<close>.
\<close>

fun cat_fill ::
  "nat \<Rightarrow> dtype \<Rightarrow> nat list \<Rightarrow> tensor list \<Rightarrow> nat \<Rightarrow> nat \<Rightarrow> rat list \<Rightarrow> error + rat list"
where
  "cat_fill ws k sz [] offset obj_id s = Inr s"
| "cat_fill ws k sz (v # rest) offset obj_id s =
     (if offset + numel v \<le> length s
      then cat_fill ws k sz rest (offset + sum_list (take ws (drop obj_id sz))) (obj_id + ws)
             (take offset s @ map (cast k) (data v) @ drop (offset + numel v) s)
      else Inl OffsetOverflow)"

definition cat_step :: "nat \<Rightarrow> nat \<Rightarrow> obj \<Rightarrow> dtype \<Rightarrow> tensor list \<Rightarrow> step" where
  "cat_step ws rank sizes k val =
     (case sizes_lookup sizes k of
        Inl e \<Rightarrow> Inl e
      | Inr szt \<Rightarrow>
          (case t_flatten szt of
             Inl e \<Rightarrow> Inl e
           | Inr sz \<Rightarrow>
               (case val of
                  [] \<Rightarrow> Inl IndexError
                | v0 # _ \<Rightarrow>
                    let dt = (if dtype v0 = Bool then UInt8 else dtype v0)
                    in (case cat_fill ws dt sz val (sum_list (take rank sz)) rank
                               (replicate (sum_list sz) 0) of
                          Inl e \<Rightarrow> Inl e
                        | Inr s \<Rightarrow>
                            Inr (k, \<lparr>dtype = dt, shape = [sum_list sz], device = device v0,
                                     data = s\<rparr>)))))"

text \<open>\<^verbatim>\<open>v.sum(dim=0)\<close> and \<^verbatim>\<open>{k: v.sum(dim=0) for k, v in sizes.items()}\<close>.\<close>

definition sum_dim0 :: "tensor \<Rightarrow> error + tensor" where
  "sum_dim0 t =
     (case shape t of
        [] \<Rightarrow> Inl IndexError
      | d0 # rest \<Rightarrow>
          Inr (t\<lparr>shape := rest,
                 data := map (\<lambda>j. cast (dtype t) (sum_list (map (\<lambda>p. data t ! (p * prod_list rest + j)) [0..<d0])))
                           [0..<prod_list rest]\<rparr>))"

fun size_table :: "(key \<times> obj) list \<Rightarrow> error + buffers" where
  "size_table [] = Inr Map.empty"
| "size_table ((DtypeKey k, Tensor t) # rest) =
     (case sum_dim0 t of
        Inl e \<Rightarrow> Inl e
      | Inr s \<Rightarrow> (case size_table rest of Inl e \<Rightarrow> Inl e | Inr m \<Rightarrow> Inr ([k \<mapsto> s] ++ m)))"
| "size_table (other # rest) = Inl TypeError"

text \<open>
  The job-wide view of \<^verbatim>\<open>cat\<close>.  Stage one is \<^verbatim>\<open>stack(sizes)\<close> on every worker; the steps
  of stage two of a worker depend on what stage one returned to it.
\<close>

definition cat_stage1_plan :: "obj list \<Rightarrow> nat \<Rightarrow> plan" where
  "cat_stage1_plan objs p =
     (case sizes_obj (objs ! p) of Inl e \<Rightarrow> Inl e | Inr so \<Rightarrow> stack_plan (length objs) p so)"

definition cat_stage1 :: "comm \<Rightarrow> obj list \<Rightarrow> nat \<Rightarrow> error + obj" where
  "cat_stage1 c objs p =
     (case sizes_obj (objs ! p) of
        Inl e \<Rightarrow> Inl e
      | Inr so \<Rightarrow>
          stack_local c None p (call_table c (map (cat_stage1_plan objs) [0..<length objs]))
            (cat_stage1_plan objs p) so)"

definition cat_plan :: "comm \<Rightarrow> obj list \<Rightarrow> nat \<Rightarrow> plan" where
  "cat_plan c objs p =
     (case recursive_read (objs ! p) of
        Inl e \<Rightarrow> Inl e
      | Inr (values, sizes) \<Rightarrow>
          (case cat_stage1 c objs p of
             Inl e \<Rightarrow> Inl e
           | Inr stacked \<Rightarrow> Inr (map (\<lambda>(k, val). cat_step (length objs) p stacked k val) values)))"

definition cat_on :: "comm \<Rightarrow> nat option \<Rightarrow> obj list \<Rightarrow> nat \<Rightarrow> error + obj" where
  "cat_on c dst objs rank =
     (case cat_plan c objs rank of
        Inl e \<Rightarrow> Inl e
      | Inr steps \<Rightarrow>
          (case coll_loop c OpSum dst rank (call_table c (map (cat_plan c objs) [0..<length objs]))
                  th_type 0 steps Map.empty of
             Inl e \<Rightarrow> Inl e
           | Inr cated \<Rightarrow>
               (case cat_stage1 c objs rank of
                  Inr (Dict items) \<Rightarrow>
                    (case size_table items of
                       Inl e \<Rightarrow> Inl e
                     | Inr sizes \<Rightarrow>
                         (case recursive_write (objs ! rank) (cated, Some sizes) of
                            Inl e \<Rightarrow> Inl e
                          | Inr (new_obj, st) \<Rightarrow> Inr new_obj))
                | Inr other \<Rightarrow> Inl TypeError
                | Inl e \<Rightarrow> Inl e)))"

section \<open>Vocabulary for the properties\<close>

text \<open>
  The leaves of a container in traversal order (the order in which \<^verbatim>\<open>_recursive_read\<close>
  and \<^verbatim>\<open>_recursive_write\<close> meet them).
\<close>

fun leaves :: "obj \<Rightarrow> tensor list"
  and leaves_items :: "(key \<times> obj) list \<Rightarrow> tensor list"
  and leaves_seq :: "obj list \<Rightarrow> tensor list"
where
  "leaves (Tensor t) = [t]"
| "leaves (Dict items) = leaves_items items"
| "leaves (ListObj xs) = leaves_seq xs"
| "leaves (TupleObj xs) = leaves_seq xs"
| "leaves (Other v) = []"
| "leaves_items [] = []"
| "leaves_items ((k, x) # rest) = leaves x @ leaves_items rest"
| "leaves_seq [] = []"
| "leaves_seq (x # rest) = leaves x @ leaves_seq rest"

text \<open>
  A container is supported when every node is a tensor, a dict, a list or a tuple, and
  every dict has each key once (as a Python dict has).
\<close>

fun supported :: "obj \<Rightarrow> bool"
  and supported_items :: "(key \<times> obj) list \<Rightarrow> bool"
  and supported_seq :: "obj list \<Rightarrow> bool"
where
  "supported (Tensor t) = True"
| "supported (Dict items) = (distinct (map fst items) \<and> supported_items items)"
| "supported (ListObj xs) = supported_seq xs"
| "supported (TupleObj xs) = supported_seq xs"
| "supported (Other v) = False"
| "supported_items [] = True"
| "supported_items ((k, x) # rest) = (supported x \<and> supported_items rest)"
| "supported_seq [] = True"
| "supported_seq (x # rest) = (supported x \<and> supported_seq rest)"

text \<open>Whether some node is none of tensor, dict, list, tuple.\<close>

fun has_other :: "obj \<Rightarrow> bool"
  and has_other_items :: "(key \<times> obj) list \<Rightarrow> bool"
  and has_other_seq :: "obj list \<Rightarrow> bool"
where
  "has_other (Tensor t) = False"
| "has_other (Dict items) = has_other_items items"
| "has_other (ListObj xs) = has_other_seq xs"
| "has_other (TupleObj xs) = has_other_seq xs"
| "has_other (Other v) = True"
| "has_other_items [] = False"
| "has_other_items ((k, x) # rest) = (has_other x \<or> has_other_items rest)"
| "has_other_seq [] = False"
| "has_other_seq (x # rest) = (has_other x \<or> has_other_seq rest)"

text \<open>
  The nesting structure of a container, over the closed variant Leaf, Map, Sequence of the
  design document: lists and tuples are both sequences.
\<close>

datatype skeleton = Leaf | MapOf "(key \<times> skeleton) list" | Sequence "skeleton list" | Unsupported

fun skel :: "obj \<Rightarrow> skeleton"
  and skel_items :: "(key \<times> obj) list \<Rightarrow> (key \<times> skeleton) list"
  and skel_seq :: "obj list \<Rightarrow> skeleton list"
where
  "skel (Tensor t) = Leaf"
| "skel (Dict items) = MapOf (skel_items items)"
| "skel (ListObj xs) = Sequence (skel_seq xs)"
| "skel (TupleObj xs) = Sequence (skel_seq xs)"
| "skel (Other v) = Unsupported"
| "skel_items [] = []"
| "skel_items ((k, x) # rest) = (k, skel x) # skel_items rest"
| "skel_seq [] = []"
| "skel_seq (x # rest) = skel x # skel_seq rest"

text \<open>The rebuild of a list of leaves, one after the other, as the traversal does it.\<close>

fun carve :: "tensor list \<Rightarrow> wstate \<Rightarrow> error + tensor list \<times> wstate" where
  "carve [] st = Inr ([], st)"
| "carve (t # ts) st =
     (case write_leaf t st of
        Inl e \<Rightarrow> Inl e
      | Inr (t', st') \<Rightarrow>
          (case carve ts st' of Inl e \<Rightarrow> Inl e | Inr (r, st'') \<Rightarrow> Inr (t' # r, st'')))"

text \<open>
  Flatten followed by rebuild with no size table and no collective in between: the buffers
  are \<^verbatim>\<open>{k: th.cat(v) for k, v in values.items()}\<close>, as in \<^verbatim>\<open>reduce\<close>.
\<close>

definition flatten_rebuild :: "obj \<Rightarrow> error + obj" where
  "flatten_rebuild obj =
     (case recursive_read obj of
        Inl e \<Rightarrow> Inl e
      | Inr (values, sizes) \<Rightarrow>
          (case cat_all values of
             Inl e \<Rightarrow> Inl e
           | Inr bufs \<Rightarrow>
               (case recursive_write obj (map_of bufs, None) of
                  Inl e \<Rightarrow> Inl e
                | Inr (new_obj, st) \<Rightarrow> Inr new_obj)))"

text \<open>
  A tensor is well formed when it has as many elements as its shape says and every element
  is a value of its dtype.
\<close>

definition wf_tensor :: "tensor \<Rightarrow> bool" where
  "wf_tensor t = (length (data t) = numel t \<and> list_all (\<lambda>x. cast (dtype t) x = x) (data t))"

text \<open>Leaves that have a leading axis and no empty axis after it.\<close>

definition has_rows :: "tensor \<Rightarrow> bool" where
  "has_rows t = (shape t \<noteq> [] \<and> 0 < prod_list (tl (shape t)))"

text \<open>Concrete processes and wrapped functions used in the examples below.\<close>

definition ex_env :: "int \<Rightarrow> int \<Rightarrow> procenv" where
  "ex_env r n = \<lparr>dist_initialized = True, dist_rank = r, dist_world_size = n, environ = Map.empty\<rparr>"

definition ex_writer :: pyfunc where
  "ex_writer args kwargs f = (PNone, f(''a.pkl'' \<mapsto> PInt 7))"

definition ex_idle :: pyfunc where
  "ex_idle args kwargs f = (PNone, f)"

definition ex_start :: proc where
  "ex_start = \<lparr>fs = Map.empty, trace = []\<rparr>"

definition ex_cached :: proc where
  "ex_cached = \<lparr>fs = [''a.pkl'' \<mapsto> PInt 3], trace = []\<rparr>"

section \<open>Coordinator gating: properties\<close>

lemma trace_emit: "trace (emit ev p) = trace p @ [ev]"
  by (simp add: emit_def)

lemma fs_emit: "fs (emit ev p) = fs p"
  by (simp add: emit_def)

lemma trace_synchronize:
  "trace (synchronize e peers p) = trace p @ (if get_world_size e > 1 then [Barrier] else [])"
  by (simp add: synchronize_def emit_def)

lemma fs_synchronize:
  "fs (synchronize e peers p) = (if get_world_size e > 1 then peers (fs p) else fs p)"
  by (simp add: synchronize_def emit_def)

lemma trace_call_func: "trace (snd (call_func func args kwargs p)) = trace p @ [Call]"
  by (simp add: call_func_def emit_def split: prod.split)

lemma fs_call_func: "fs (snd (call_func func args kwargs p)) = snd (func args kwargs (fs p))"
  by (simp add: call_func_def emit_def split: prod.split)

lemma fst_call_func: "fst (call_func func args kwargs p) = fst (func args kwargs (fs p))"
  by (simp add: call_func_def split: prod.split)

lemma pickle_load_cases:
  "pickle_load filename p =
     (case fs p filename of None \<Rightarrow> (Inl FileNotFoundError, p)
      | Some v \<Rightarrow> (Inr v, p\<lparr>trace := trace p @ [Load filename]\<rparr>))"
  by (simp add: pickle_load_def emit_def split: option.splits)

text \<open>
  C8.  When the cache file is absent or \<^verbatim>\<open>skip_cache\<close> is set, the wrapped function runs
  on rank 0 only (with \<^verbatim>\<open>skip_cache\<close> removed from its keyword arguments), then the process
  calls \<^verbatim>\<open>synchronize\<close> (a barrier as soon as there is more than one worker), then it loads
  and returns the artifact found after the barrier; when there is none the call fails with
  \<open>MissingCacheArtifact\<close> and nothing is loaded.
\<close>

theorem gating_compute_barrier_load:
  assumes fname: "resolve_filename cache_arg cache_kwarg args kwargs = Inr (Some (PStr filename))"
    and miss: "fs p filename = None
               \<or> truthy (case kwargs ''skip_cache'' of None \<Rightarrow> PBool False | Some v \<Rightarrow> v)"
    and run: "process_on_master_and_sync_by_pickle cache_arg cache_kwarg e peers func_name func
                args kwargs p = (res, p')"
  shows "fs p' = (if get_world_size e > 1 then peers else id)
                   (if get_rank e = 0 then snd (func args (kwargs(''skip_cache'' := None)) (fs p))
                    else fs p)
       \<and> res = (case fs p' filename of None \<Rightarrow> Inl MissingCacheArtifact | Some v \<Rightarrow> Inr v)
       \<and> trace p' = trace p
            @ (if get_rank e = 0 then [Call] else [])
            @ (if get_world_size e > 1 then [Barrier] else [])
            @ (if fs p' filename = None then [] else [Load filename])"
  using fname miss run
  by (auto simp add: process_on_master_and_sync_by_pickle_def Let_def pickle_load_cases
        trace_synchronize fs_synchronize trace_call_func fs_call_func
        split: option.splits if_splits)

text \<open>
  Two workers, no cache file yet: rank 0 computes and writes, passes the barrier, loads; rank 1
  only passes the barrier, after which it sees the file of rank 0, and loads.  A function
  that writes nothing leaves rank 0 with \<open>MissingCacheArtifact\<close>.
\<close>

lemma ex_env_simps [simp]: "get_rank (ex_env r n) = r" "get_world_size (ex_env r n) = n"
  by (simp_all add: ex_env_def get_rank_def get_world_size_def)

lemma ex_resolve:
  "resolve_filename (Some 0) None [PStr ''a.pkl''] Map.empty = Inr (Some (PStr ''a.pkl''))"
  by (simp add: resolve_filename_def py_index_def)

theorem gating_compute_barrier_load_witness:
  "resolve_filename (Some 0) None [PStr ''a.pkl''] Map.empty = Inr (Some (PStr ''a.pkl''))
   \<and> fs ex_start ''a.pkl'' = None
   \<and> fst (process_on_master_and_sync_by_pickle (Some 0) None (ex_env 0 2) id ''f'' ex_writer
            [PStr ''a.pkl''] Map.empty ex_start) = Inr (PInt 7)
   \<and> trace (snd (process_on_master_and_sync_by_pickle (Some 0) None (ex_env 0 2) id ''f'' ex_writer
            [PStr ''a.pkl''] Map.empty ex_start)) = [Call, Barrier, Load ''a.pkl'']
   \<and> fst (process_on_master_and_sync_by_pickle (Some 0) None (ex_env 0 2) id ''f'' ex_idle
            [PStr ''a.pkl''] Map.empty ex_start) = Inl MissingCacheArtifact"
proof -
  let ?run = "\<lambda>f. process_on_master_and_sync_by_pickle (Some 0) None (ex_env 0 2) id ''f'' f
                 [PStr ''a.pkl''] Map.empty ex_start"
  have absent: "fs ex_start ''a.pkl'' = None
      \<or> truthy (case Map.empty ''skip_cache'' of None \<Rightarrow> PBool False | Some v \<Rightarrow> v)"
    by (simp add: ex_start_def)
  have w: "?run ex_writer = (fst (?run ex_writer), snd (?run ex_writer))"
    and i: "?run ex_idle = (fst (?run ex_idle), snd (?run ex_idle))"
    by simp_all
  note a = gating_compute_barrier_load [OF ex_resolve absent w]
  note b = gating_compute_barrier_load [OF ex_resolve absent i]
  have fw: "fs (snd (?run ex_writer)) = [''a.pkl'' \<mapsto> PInt 7]"
    using a by (simp add: ex_writer_def ex_start_def)
  have fi: "fs (snd (?run ex_idle)) = Map.empty"
    using b by (simp add: ex_idle_def ex_start_def)
  have "fst (?run ex_writer) = Inr (PInt 7)"
    using a fw by simp
  moreover have "trace (snd (?run ex_writer)) = [Call, Barrier, Load ''a.pkl'']"
    using a fw by (simp add: ex_start_def)
  moreover have "fst (?run ex_idle) = Inl MissingCacheArtifact"
    using b fi by simp
  ultimately show ?thesis
    using ex_resolve by (simp add: ex_start_def)
qed

text \<open>
  C9.  When the cache file exists and \<^verbatim>\<open>skip_cache\<close> is not set, every rank returns the
  unpickled artifact; the wrapped function is not called, \<^verbatim>\<open>synchronize\<close> is not called (no
  barrier), and the files are left as they were.  Rank 0 logs one message first.
\<close>

theorem gating_cache_hit:
  assumes fname: "resolve_filename cache_arg cache_kwarg args kwargs = Inr (Some (PStr filename))"
    and hit: "fs p filename = Some v"
    and noskip: "\<not> truthy (case kwargs ''skip_cache'' of None \<Rightarrow> PBool False | Some v \<Rightarrow> v)"
    and run: "process_on_master_and_sync_by_pickle cache_arg cache_kwarg e peers func_name func
                args kwargs p = (res, p')"
  shows "res = Inr v \<and> fs p' = fs p
       \<and> trace p' = trace p
            @ (if get_rank e = 0
               then [Log (''Loaded cache '' @ filename @ '', skipped '' @ func_name)] else [])
            @ [Load filename]
       \<and> Call \<notin> set (trace p') - set (trace p)
       \<and> collectives (trace p') = collectives (trace p)"
  using fname hit noskip run
  by (auto simp add: process_on_master_and_sync_by_pickle_def Let_def pickle_load_cases
        emit_def collectives_def split: option.splits if_splits)

theorem gating_cache_hit_witness:
  "resolve_filename (Some 0) None [PStr ''a.pkl''] Map.empty = Inr (Some (PStr ''a.pkl''))
   \<and> fs ex_cached ''a.pkl'' = Some (PInt 3)
   \<and> fst (process_on_master_and_sync_by_pickle (Some 0) None (ex_env 1 2) id ''f'' ex_writer
            [PStr ''a.pkl''] Map.empty ex_cached) = Inr (PInt 3)
   \<and> trace (snd (process_on_master_and_sync_by_pickle (Some 0) None (ex_env 1 2) id ''f'' ex_writer
            [PStr ''a.pkl''] Map.empty ex_cached)) = [Load ''a.pkl'']"
proof -
  let ?run = "process_on_master_and_sync_by_pickle (Some 0) None (ex_env 1 2) id ''f'' ex_writer
                 [PStr ''a.pkl''] Map.empty ex_cached"
  have hit: "fs ex_cached ''a.pkl'' = Some (PInt 3)"
    by (simp add: ex_cached_def)
  have noskip: "\<not> truthy (case Map.empty ''skip_cache'' of None \<Rightarrow> PBool False | Some v \<Rightarrow> v)"
    by simp
  have r: "?run = (fst ?run, snd ?run)"
    by simp
  note a = gating_cache_hit [OF ex_resolve hit noskip r]
  show ?thesis
    using a ex_resolve hit by (simp add: ex_cached_def)
qed

text \<open>
  C10.  \<^verbatim>\<open>master_process_only\<close>: on rank 0 the function is called and its result returned,
  and \<^verbatim>\<open>synchronize\<close> is not called; on any other rank the function is not called,
  \<^verbatim>\<open>synchronize\<close> is (a barrier when the world size is above one) and \<^verbatim>\<open>None\<close> is
  returned.  With more than one worker, rank 0 therefore issues no collective call and the
  other ranks issue one barrier.
\<close>

theorem master_process_only_ranks:
  assumes r0: "get_rank e0 = 0" and r1: "get_rank e1 \<noteq> 0"
    and run0: "master_process_only e0 peers func args kwargs p = (res0, p0)"
    and run1: "master_process_only e1 peers func args kwargs p = (res1, p1)"
  shows "res0 = fst (func args kwargs (fs p)) \<and> fs p0 = snd (func args kwargs (fs p))
       \<and> trace p0 = trace p @ [Call]
       \<and> res1 = PNone
       \<and> trace p1 = trace p @ (if get_world_size e1 > 1 then [Barrier] else [])
       \<and> collectives (trace p0) = collectives (trace p)
       \<and> (get_world_size e1 > 1 \<longrightarrow>
            collectives (trace p1) = collectives (trace p) @ [Barrier]
            \<and> collectives (trace p1) \<noteq> collectives (trace p0))"
proof -
  have c: "call_func func args kwargs p = (res0, p0)"
    using r0 run0 by (simp add: master_process_only_def)
  have "fst (call_func func args kwargs p) = res0" "snd (call_func func args kwargs p) = p0"
    using c by simp_all
  then have a: "res0 = fst (func args kwargs (fs p))" "fs p0 = snd (func args kwargs (fs p))"
      "trace p0 = trace p @ [Call]"
    using fst_call_func [of func args kwargs p] fs_call_func [of func args kwargs p]
      trace_call_func [of func args kwargs p] by simp_all
  have b: "res1 = PNone" "p1 = synchronize e1 peers p"
    using r1 run1 by (simp_all add: master_process_only_def)
  show ?thesis
    using a b by (simp add: collectives_def trace_synchronize)
qed

theorem master_process_only_ranks_witness:
  "get_rank (ex_env 0 2) = 0 \<and> get_rank (ex_env 1 2) \<noteq> 0 \<and> get_world_size (ex_env 1 2) > 1
   \<and> fst (master_process_only (ex_env 0 2) id ex_writer [] Map.empty ex_start) = PNone
   \<and> trace (snd (master_process_only (ex_env 0 2) id ex_writer [] Map.empty ex_start)) = [Call]
   \<and> trace (snd (master_process_only (ex_env 1 2) id ex_writer [] Map.empty ex_start)) = [Barrier]"
proof -
  let ?r0 = "master_process_only (ex_env 0 2) id ex_writer [] Map.empty ex_start"
  let ?r1 = "master_process_only (ex_env 1 2) id ex_writer [] Map.empty ex_start"
  have r0: "get_rank (ex_env 0 2) = 0" and r1: "get_rank (ex_env 1 2) \<noteq> 0"
    by simp_all
  have p0: "?r0 = (fst ?r0, snd ?r0)" and p1: "?r1 = (fst ?r1, snd ?r1)"
    by simp_all
  note a = master_process_only_ranks [OF r0 r1 p0 p1]
  show ?thesis
    using a by (simp add: ex_start_def ex_writer_def)
qed

end
